theory Spec2Isabelle
  imports Main "HOL-Library.Product_Lexorder"
begin

section \<open>Errors\<close>

text \<open>
  The exceptions that the modelled code raises or lets through. \<open>ConnectorException\<close>
  is the class of \<^verbatim>\<open>bzpost.py\<close>; \<open>BadStatusLine\<close> is the one that
  \<^verbatim>\<open>bzbrowser.py\<close> catches; the others are Python's built-in ones.
\<close>

datatype error =
  ValueError | TypeError | IndexError | OverflowError | ConnectorException | BadStatusLine

section \<open>Dates and times\<close>

text \<open>
  \<^verbatim>\<open>datetime.date\<close> and its subclass \<^verbatim>\<open>datetime.datetime\<close> (naive values only),
  as a record and its extension. The constructors check their fields as Python does and
  raise \<open>ValueError\<close> otherwise.
\<close>

record date =
  year :: int
  month :: int
  day :: int

record datetime = date +
  hour :: int
  minute :: int
  second :: int
  microsecond :: int

definition is_leap :: "int \<Rightarrow> bool" where
  "is_leap y = (y mod 4 = 0 \<and> (y mod 100 \<noteq> 0 \<or> y mod 400 = 0))"

definition days_in_month :: "int \<Rightarrow> int \<Rightarrow> int" where
  "days_in_month y m =
     (if m = 2 then (if is_leap y then 29 else 28)
      else if m = 4 \<or> m = 6 \<or> m = 9 \<or> m = 11 then 30 else 31)"

definition valid_date_fields :: "int \<Rightarrow> int \<Rightarrow> int \<Rightarrow> bool" where
  "valid_date_fields y m d =
     (1 \<le> y \<and> y \<le> 9999 \<and> 1 \<le> m \<and> m \<le> 12 \<and> 1 \<le> d \<and> d \<le> days_in_month y m)"

definition valid_time_fields :: "int \<Rightarrow> int \<Rightarrow> int \<Rightarrow> int \<Rightarrow> bool" where
  "valid_time_fields h mi s us =
     (0 \<le> h \<and> h \<le> 23 \<and> 0 \<le> mi \<and> mi \<le> 59 \<and> 0 \<le> s \<and> s \<le> 59 \<and> 0 \<le> us \<and> us \<le> 999999)"

definition mk_date :: "int \<Rightarrow> int \<Rightarrow> int \<Rightarrow> error + date" where
  "mk_date y m d =
     (if valid_date_fields y m d then Inr \<lparr>year = y, month = m, day = d\<rparr>
      else Inl ValueError)"

definition mk_datetime ::
  "int \<Rightarrow> int \<Rightarrow> int \<Rightarrow> int \<Rightarrow> int \<Rightarrow> int \<Rightarrow> int \<Rightarrow> error + datetime" where
  "mk_datetime y m d h mi s us =
     (if valid_date_fields y m d \<and> valid_time_fields h mi s us
      then Inr \<lparr>year = y, month = m, day = d,
                hour = h, minute = mi, second = s, microsecond = us\<rparr>
      else Inl ValueError)"

definition valid_date :: "date \<Rightarrow> bool" where
  "valid_date d = valid_date_fields (year d) (month d) (day d)"

definition valid_datetime :: "datetime \<Rightarrow> bool" where
  "valid_datetime t =
     (valid_date_fields (year t) (month t) (day t)
      \<and> valid_time_fields (hour t) (minute t) (second t) (microsecond t))"

text \<open>\<^verbatim>\<open>value.date()\<close>: the date part of a datetime.\<close>

definition date_of :: "datetime \<Rightarrow> date" where
  "date_of t = \<lparr>year = year t, month = month t, day = day t\<rparr>"

text \<open>
  Python orders datetimes as the tuples of their fields, lexicographically.
\<close>

definition dt_key :: "datetime \<Rightarrow> int \<times> int \<times> int \<times> int \<times> int \<times> int \<times> int" where
  "dt_key t = (year t, month t, day t, hour t, minute t, second t, microsecond t)"

definition dt_le :: "datetime \<Rightarrow> datetime \<Rightarrow> bool" where
  "dt_le a b = (dt_key a \<le> dt_key b)"

definition dt_less :: "datetime \<Rightarrow> datetime \<Rightarrow> bool" where
  "dt_less a b = (dt_key a < dt_key b)"

text \<open>
  \<^verbatim>\<open>current + datetime.timedelta(hours = 1)\<close>, by carrying into the day, the month and
  the year; past the last hour of year 9999 Python raises \<open>OverflowError\<close>.
\<close>

definition add_hour :: "datetime \<Rightarrow> error + datetime" where
  "add_hour t =
     (if hour t < 23 then Inr (t\<lparr>hour := hour t + 1\<rparr>)
      else if day t < days_in_month (year t) (month t)
        then Inr (t\<lparr>day := day t + 1, hour := 0\<rparr>)
      else if month t < 12 then Inr (t\<lparr>month := month t + 1, day := 1, hour := 0\<rparr>)
      else if year t < 9999 then Inr (t\<lparr>year := year t + 1, month := 1, day := 1, hour := 0\<rparr>)
      else Inl OverflowError)"

section \<open>Time normalization\<close>

text \<open>
  The values the normalizers are documented for: an \<^verbatim>\<open>int\<close>, a
  \<^verbatim>\<open>datetime.datetime\<close> or a \<^verbatim>\<open>datetime.date\<close>.
  \<^verbatim>\<open>datetime.datetime.fromtimestamp\<close> belongs to the platform (it reads the local time
  zone and fails outside its range), so every function that reaches it takes it as the
  parameter \<open>fts\<close>.
\<close>

datatype timeval = PyInt int | PyDateTime datetime | PyDate date

type_synonym clock = "int \<Rightarrow> error + datetime"

fun normalize_time :: "clock \<Rightarrow> timeval \<Rightarrow> bool \<Rightarrow> error + datetime" where
  "normalize_time fts (PyInt n) including = fts n"
| "normalize_time fts (PyDateTime t) including = Inr t"
| "normalize_time fts (PyDate d) including =
     (if including then mk_datetime (year d) (month d) (day d) 24 0 0 0
      else mk_datetime (year d) (month d) (day d) 0 0 0 0)"

fun normalize_date :: "clock \<Rightarrow> timeval \<Rightarrow> error + date" where
  "normalize_date fts (PyInt n) =
     (case fts n of Inl e \<Rightarrow> Inl e | Inr t \<Rightarrow> Inr (date_of t))"
| "normalize_date fts (PyDateTime t) = Inr (date_of t)"
| "normalize_date fts (PyDate d) = Inr d"

text \<open>
  \<^verbatim>\<open>normalize_year\<close>: the year of a date or datetime, \<^verbatim>\<open>int(value)\<close> otherwise.
\<close>

fun normalize_year :: "timeval \<Rightarrow> int" where
  "normalize_year (PyInt n) = n"
| "normalize_year (PyDateTime t) = year t"
| "normalize_year (PyDate d) = year d"

definition normalize_month :: "clock \<Rightarrow> timeval \<Rightarrow> error + date" where
  "normalize_month fts v =
     (case normalize_date fts v of
        Inl e \<Rightarrow> Inl e
      | Inr d \<Rightarrow> mk_date (year d) (month d) 1)"

definition normalize_day :: "clock \<Rightarrow> timeval \<Rightarrow> error + date" where
  "normalize_day fts v = normalize_date fts v"

section \<open>Strings, formatting and URLs\<close>

text \<open>
  Text is ASCII: a \<open>string\<close> is a list of characters. \<open>show_nat\<close> is the decimal
  notation that \<^verbatim>\<open>%d\<close> prints.
\<close>

definition digit_char :: "nat \<Rightarrow> char" where
  "digit_char n = ''0123456789'' ! (n mod 10)"

function show_nat :: "nat \<Rightarrow> string" where
  "show_nat n = (if n < 10 then [digit_char n] else show_nat (n div 10) @ [digit_char n])"
  by pat_completeness auto
termination
  by (relation "measure (\<lambda>n. n)") auto

declare show_nat.simps [simp del]

definition show_int :: "int \<Rightarrow> string" where
  "show_int i = (if i < 0 then CHR ''-'' # show_nat (nat (- i)) else show_nat (nat i))"

text \<open>\<^verbatim>\<open>"%4d" % i\<close>: right-justified in four columns, padded with spaces.\<close>

definition fmt_4d :: "int \<Rightarrow> string" where
  "fmt_4d i = (let s = show_int i in replicate (4 - length s) CHR '' '' @ s)"

text \<open>\<^verbatim>\<open>"%02d" % i\<close> and \<^verbatim>\<open>"%04d" % i\<close>: padded with zeros after the sign.\<close>

definition fmt_0d :: "nat \<Rightarrow> int \<Rightarrow> string" where
  "fmt_0d w i =
     (if i < 0
      then (let s = show_nat (nat (- i)) in CHR ''-'' # replicate (w - 1 - length s) CHR ''0'' @ s)
      else (let s = show_nat (nat i) in replicate (w - length s) CHR ''0'' @ s))"

text \<open>
  \<^verbatim>\<open>urllib.parse.urljoin(base, ref)\<close> for the references this code builds: a relative
  path without dot segments, query or fragment, joined to a base that has a path. The
  last segment of the base path is replaced by the reference.
\<close>

definition urljoin :: "string \<Rightarrow> string \<Rightarrow> string" where
  "urljoin base ref = rev (dropWhile (\<lambda>c. c \<noteq> CHR ''/'') (rev base)) @ ref"

section \<open>The listing patterns\<close>

text \<open>
  Both patterns are compiled from \<^verbatim>\<open>str\<close> literals. \<^verbatim>\<open>\s\<close> and \<^verbatim>\<open>\d\<close> are given
  on ASCII text, and \<^verbatim>\<open>int\<close> on the digit strings that the patterns capture.
\<close>

definition is_space :: "char \<Rightarrow> bool" where
  "is_space c = (c \<in> set [CHR 0x20, CHR 0x09, CHR 0x0A, CHR 0x0B, CHR 0x0C, CHR 0x0D,
                           CHR 0x1C, CHR 0x1D, CHR 0x1E, CHR 0x1F])"

definition is_digit :: "char \<Rightarrow> bool" where
  "is_digit c = (c \<in> set ''0123456789'')"

definition digit_val :: "char \<Rightarrow> int" where
  "digit_val c = int (length (takeWhile (\<lambda>d. d \<noteq> c) ''0123456789''))"

definition py_int :: "string \<Rightarrow> int" where
  "py_int s = foldl (\<lambda>a c. 10 * a + digit_val c) 0 s"

fun strip_prefix :: "string \<Rightarrow> string \<Rightarrow> string option" where
  "strip_prefix [] s = Some s"
| "strip_prefix (p # ps) [] = None"
| "strip_prefix (p # ps) (c # cs) = (if p = c then strip_prefix ps cs else None)"

text \<open>
  The common head of both patterns, \<^verbatim>\<open>href\s*=\s*\"\s*\<close>, and their common end,
  \<^verbatim>\<open>\s*(\/)?\s*\"\<close>. White space, the slash and the quote are disjoint, so the greedy
  choice is the only one that can match. \<open>link_end\<close> returns the text matched up to and
  including the optional slash, and the text after the closing quote.
\<close>

definition link_head :: "string \<Rightarrow> string option" where
  "link_head s =
     (case strip_prefix ''href'' s of
        None \<Rightarrow> None
      | Some r1 \<Rightarrow>
         (case strip_prefix ''='' (dropWhile is_space r1) of
            None \<Rightarrow> None
          | Some r2 \<Rightarrow>
             (case strip_prefix [CHR 0x22] (dropWhile is_space r2) of
                None \<Rightarrow> None
              | Some r3 \<Rightarrow> Some (dropWhile is_space r3))))"

definition link_end :: "string \<Rightarrow> (string \<times> string) option" where
  "link_end s =
     (let ws = takeWhile is_space s; r1 = dropWhile is_space s;
          sl = (case r1 of [] \<Rightarrow> [] | c # cs \<Rightarrow> if c = CHR ''/'' then [c] else []);
          r2 = drop (length sl) r1
      in case strip_prefix [CHR 0x22] (dropWhile is_space r2) of
           None \<Rightarrow> None
         | Some r3 \<Rightarrow> Some (ws @ sl, r3))"

text \<open>
  \<^verbatim>\<open>YEAR_RE\<close>: \<^verbatim>\<open>href\s*=\s*\"\s*(([0-9]+)\s*(\/)?)\s*\"\<close>. Group 1 is the link (the
  digits, the white space after them and the slash), group 2 the digits.
\<close>

record number_match =
  n_link :: string
  n_digits :: string

definition match_year :: "string \<Rightarrow> (number_match \<times> string) option" where
  "match_year s =
     (case link_head s of
        None \<Rightarrow> None
      | Some r \<Rightarrow>
         (let ds = takeWhile is_digit r
          in if ds = [] then None
             else (case link_end (dropWhile is_digit r) of
                     None \<Rightarrow> None
                   | Some (e, rest) \<Rightarrow> Some (\<lparr>n_link = ds @ e, n_digits = ds\<rparr>, rest))))"

text \<open>
  \<^verbatim>\<open>SNAPSHOT_RE\<close>:
  \<^verbatim>\<open>href\s*=\s*\"\s*((\d{4})(\d{2})(\d{2})(\d{2})(\d{2})(\d{2})(\d{3})_(.*?)_snap\.fits)\s*(\/)?\s*\"\<close>.
  Group 1 is the file name, groups 2 to 8 the seventeen digits (year, month, day, hour,
  minute, second, and the three digits after the seconds), group 9 the tag.
\<close>

record snapshot_match =
  g_name :: string
  g_year :: string
  g_month :: string
  g_day :: string
  g_hour :: string
  g_minute :: string
  g_second :: string
  g_msec :: string
  g_tag :: string

text \<open>
  The lazy \<^verbatim>\<open>(.*?)\<close> followed by the rest of the pattern: the shortest tag, without a
  line break, after which \<^verbatim>\<open>_snap\.fits\s*(\/)?\s*\"\<close> matches.
\<close>

definition snapshot_end :: "string \<Rightarrow> string option" where
  "snapshot_end s =
     (case strip_prefix ''_snap.fits'' s of
        None \<Rightarrow> None
      | Some r \<Rightarrow> map_option snd (link_end r))"

fun match_tag :: "string \<Rightarrow> (string \<times> string) option" where
  "match_tag [] = map_option (Pair []) (snapshot_end [])"
| "match_tag (c # cs) =
     (case snapshot_end (c # cs) of
        Some rest \<Rightarrow> Some ([], rest)
      | None \<Rightarrow>
         (if c = CHR 0x0A then None
          else map_option (\<lambda>(t, rest). (c # t, rest)) (match_tag cs)))"

definition match_snapshot :: "string \<Rightarrow> (snapshot_match \<times> string) option" where
  "match_snapshot s =
     (case link_head s of
        None \<Rightarrow> None
      | Some r \<Rightarrow>
         (let ds = take 17 r
          in if length ds < 17 \<or> \<not> list_all is_digit ds then None
             else (case strip_prefix ''_'' (drop 17 r) of
                     None \<Rightarrow> None
                   | Some r1 \<Rightarrow>
                      (case match_tag r1 of
                         None \<Rightarrow> None
                       | Some (tag, rest) \<Rightarrow>
                          Some (\<lparr>g_name = ds @ ''_'' @ tag @ ''_snap.fits'',
                                 g_year = take 4 ds,
                                 g_month = take 2 (drop 4 ds),
                                 g_day = take 2 (drop 6 ds),
                                 g_hour = take 2 (drop 8 ds),
                                 g_minute = take 2 (drop 10 ds),
                                 g_second = take 2 (drop 12 ds),
                                 g_msec = take 3 (drop 14 ds),
                                 g_tag = tag\<rparr>, rest)))))"

text \<open>
  \<^verbatim>\<open>pattern.finditer(response)\<close>: the matches from left to right, each search
  starting where the last match ended. A match is never empty, so the scan ends.
\<close>

lemma strip_prefix_length:
  "strip_prefix p s = Some r \<Longrightarrow> length s = length p + length r"
  by (induction p s rule: strip_prefix.induct) (auto split: if_splits)

lemma link_head_shorter: "link_head s = Some r \<Longrightarrow> length r < length s"
proof -
  have drop_le: "length (dropWhile is_space xs) \<le> length xs" for xs
    by (rule length_dropWhile_le)
  assume "link_head s = Some r"
  then obtain r1 r2 r3 where
    a: "strip_prefix ''href'' s = Some r1"
    and b: "strip_prefix ''='' (dropWhile is_space r1) = Some r2"
    and c: "strip_prefix [CHR 0x22] (dropWhile is_space r2) = Some r3"
    and d: "r = dropWhile is_space r3"
    by (auto simp: link_head_def split: option.splits)
  from strip_prefix_length[OF a] strip_prefix_length[OF b] strip_prefix_length[OF c]
    drop_le[of r1] drop_le[of r2] drop_le[of r3] d
  show ?thesis by simp
qed

lemma link_end_shorter: "link_end s = Some (e, r) \<Longrightarrow> length r < length s"
proof -
  assume "link_end s = Some (e, r)"
  then obtain k where
    a: "strip_prefix [CHR 0x22] (dropWhile is_space (drop k (dropWhile is_space s))) = Some r"
    by (auto simp: link_end_def Let_def split: option.splits)
  have "length (dropWhile is_space (drop k (dropWhile is_space s))) \<le> length s"
    using length_dropWhile_le[of is_space "drop k (dropWhile is_space s)"]
      length_dropWhile_le[of is_space s]
    by simp
  with strip_prefix_length[OF a] show ?thesis by simp
qed

lemma snapshot_end_shorter: "snapshot_end s = Some r \<Longrightarrow> length r < length s"
  by (auto simp: snapshot_end_def split: option.splits
      dest!: strip_prefix_length link_end_shorter)

lemma match_tag_shorter: "match_tag s = Some (t, r) \<Longrightarrow> length r \<le> length s"
proof (induction s arbitrary: t)
  case Nil
  then show ?case by (auto dest: snapshot_end_shorter)
next
  case (Cons c cs)
  then show ?case
    by (fastforce split: option.splits if_splits dest: snapshot_end_shorter)
qed

lemma match_snapshot_shorter: "match_snapshot s = Some (m, r) \<Longrightarrow> length r < length s"
  by (auto simp: match_snapshot_def Let_def split: option.splits if_splits
      dest!: link_head_shorter match_tag_shorter strip_prefix_length)

lemma match_year_shorter: "match_year s = Some (m, r) \<Longrightarrow> length r < length s"
proof -
  assume "match_year s = Some (m, r)"
  then obtain r0 e where a: "link_head s = Some r0"
    and b: "link_end (dropWhile is_digit r0) = Some (e, r)"
    by (auto simp: match_year_def Let_def split: option.splits if_splits)
  from link_head_shorter[OF a] link_end_shorter[OF b] length_dropWhile_le[of is_digit r0]
  show ?thesis by simp
qed

text \<open>
  What a pattern is given to scan is a Python value, \<^verbatim>\<open>bytes\<close> or \<^verbatim>\<open>str\<close>. A
  pattern compiled from a \<^verbatim>\<open>str\<close> scans a \<^verbatim>\<open>str\<close>; on \<^verbatim>\<open>bytes\<close>
  \<^verbatim>\<open>finditer\<close> raises \<open>TypeError\<close>.
\<close>

datatype content = PyBytes string | PyStr string

definition py_finditer :: "(string \<Rightarrow> 'm list) \<Rightarrow> content \<Rightarrow> error + 'm list" where
  "py_finditer scan x = (case x of PyBytes b \<Rightarrow> Inl TypeError | PyStr t \<Rightarrow> Inr (scan t))"

function finditer_snapshot :: "string \<Rightarrow> snapshot_match list" where
  "finditer_snapshot [] = []"
| "finditer_snapshot (c # cs) =
     (case match_snapshot (c # cs) of
        Some (m, rest) \<Rightarrow> m # finditer_snapshot rest
      | None \<Rightarrow> finditer_snapshot cs)"
  by pat_completeness auto
termination
  by (relation "measure length") (auto dest: match_snapshot_shorter)

function finditer_year :: "string \<Rightarrow> number_match list" where
  "finditer_year [] = []"
| "finditer_year (c # cs) =
     (case match_year (c # cs) of
        Some (m, rest) \<Rightarrow> m # finditer_year rest
      | None \<Rightarrow> finditer_year cs)"
  by pat_completeness auto
termination
  by (relation "measure length") (auto dest: match_year_shorter)

section \<open>The connector\<close>

text \<open>
  The state of an \<^verbatim>\<open>HTTPConnector\<close>: its base URL and the six sets of the existence
  cache, keyed by (year, kind), (first day of the month, kind) and (day, kind). The
  connector is taken as connected, by \<^verbatim>\<open>connect()\<close>, over a transport that answers
  every request; the server is a function from the number of requests sent before and
  the requested URL to the status and the bytes of the body of the response, and
  \<open>requests\<close> records every URL that was requested, in order.
\<close>

record connector =
  base_url :: string
  existing_days :: "(date \<times> string) set"
  existing_months :: "(date \<times> string) set"
  existing_years :: "(int \<times> string) set"
  missing_days :: "(date \<times> string) set"
  missing_months :: "(date \<times> string) set"
  missing_years :: "(int \<times> string) set"
  requests :: "string list"

type_synonym server = "nat \<Rightarrow> string \<Rightarrow> nat \<times> string"

definition new_connector :: "string \<Rightarrow> connector" where
  "new_connector base =
     \<lparr>base_url = base,
      existing_days = {}, existing_months = {}, existing_years = {},
      missing_days = {}, missing_months = {}, missing_years = {},
      requests = []\<rparr>"

text \<open>
  \<^verbatim>\<open>request(url, method, throw)\<close>: with \<open>throw\<close>, a status other than 200 raises
  \<open>ConnectorException\<close>; without, the status is returned with the body. The body is
  what \<^verbatim>\<open>response.read()\<close> of \<^verbatim>\<open>http.client\<close> returns: \<^verbatim>\<open>bytes\<close>.
\<close>

definition request ::
  "server \<Rightarrow> connector \<Rightarrow> string \<Rightarrow> bool \<Rightarrow> (error + nat \<times> content) \<times> connector" where
  "request srv c u throw =
     (let (status, body) = srv (length (requests c)) u;
          c' = c\<lparr>requests := requests c @ [u]\<rparr>
      in if throw \<and> status \<noteq> 200 then (Inl ConnectorException, c')
         else (Inr (status, PyBytes body), c'))"

definition is_day_missing :: "clock \<Rightarrow> connector \<Rightarrow> timeval \<Rightarrow> string \<Rightarrow> error + bool" where
  "is_day_missing fts c v kind =
     (case normalize_date fts v of
        Inl e \<Rightarrow> Inl e
      | Inr d \<Rightarrow>
         if (year d, kind) \<in> missing_years c then Inr True
         else (case normalize_month fts (PyDate d) of
                 Inl e \<Rightarrow> Inl e
               | Inr m \<Rightarrow>
                  if (m, kind) \<in> missing_months c then Inr True
                  else Inr ((d, kind) \<in> missing_days c)))"

text \<open>
  A call of \<^verbatim>\<open>_is_day_missing\<close> as Python binds it: \<open>day\<close> and \<open>type\<close> are both
  required, and a call that leaves \<open>type\<close> out (\<open>None\<close> here) raises \<open>TypeError\<close>
  before the body runs.
\<close>

definition is_day_missing_call ::
  "clock \<Rightarrow> connector \<Rightarrow> timeval \<Rightarrow> string option \<Rightarrow> error + bool" where
  "is_day_missing_call fts c v kind =
     (case kind of None \<Rightarrow> Inl TypeError | Some k \<Rightarrow> is_day_missing fts c v k)"

definition is_hour_missing :: "clock \<Rightarrow> connector \<Rightarrow> timeval \<Rightarrow> string \<Rightarrow> error + bool" where
  "is_hour_missing fts c h kind =
     (case is_day_missing_call fts c h None of
        Inl e \<Rightarrow> Inl e
      | Inr b \<Rightarrow> if b then Inr True else Inr False)"

definition add_missing_day :: "clock \<Rightarrow> connector \<Rightarrow> timeval \<Rightarrow> string \<Rightarrow> error + connector" where
  "add_missing_day fts c v kind =
     (case normalize_day fts v of
        Inl e \<Rightarrow> Inl e
      | Inr d \<Rightarrow> Inr (c\<lparr>missing_days := insert (d, kind) (missing_days c)\<rparr>))"

definition add_missing_month :: "clock \<Rightarrow> connector \<Rightarrow> timeval \<Rightarrow> string \<Rightarrow> error + connector" where
  "add_missing_month fts c v kind =
     (case normalize_month fts v of
        Inl e \<Rightarrow> Inl e
      | Inr m \<Rightarrow> Inr (c\<lparr>missing_months := insert (m, kind) (missing_months c)\<rparr>))"

definition add_missing_year :: "connector \<Rightarrow> timeval \<Rightarrow> string \<Rightarrow> connector" where
  "add_missing_year c v kind =
     c\<lparr>missing_years := insert (normalize_year v, kind) (missing_years c)\<rparr>"

definition add_existing_day :: "clock \<Rightarrow> connector \<Rightarrow> timeval \<Rightarrow> string \<Rightarrow> error + connector" where
  "add_existing_day fts c v kind =
     (case normalize_day fts v of
        Inl e \<Rightarrow> Inl e
      | Inr d \<Rightarrow> Inr (c\<lparr>existing_days := insert (d, kind) (existing_days c)\<rparr>))"

definition add_existing_month :: "clock \<Rightarrow> connector \<Rightarrow> timeval \<Rightarrow> string \<Rightarrow> error + connector" where
  "add_existing_month fts c v kind =
     (case normalize_month fts v of
        Inl e \<Rightarrow> Inl e
      | Inr m \<Rightarrow> Inr (c\<lparr>existing_months := insert (m, kind) (existing_months c)\<rparr>))"

definition add_existing_year :: "connector \<Rightarrow> timeval \<Rightarrow> string \<Rightarrow> connector" where
  "add_existing_year c v kind =
     c\<lparr>existing_years := insert (normalize_year v, kind) (existing_years c)\<rparr>"

definition get_year_url :: "connector \<Rightarrow> int \<Rightarrow> string \<Rightarrow> string" where
  "get_year_url c y kind = urljoin (base_url c) (kind @ ''/'' @ fmt_4d y @ ''/'')"

definition get_month_url :: "connector \<Rightarrow> 'a date_scheme \<Rightarrow> string \<Rightarrow> string" where
  "get_month_url c m kind = urljoin (get_year_url c (year m) kind) (fmt_0d 2 (month m) @ ''/'')"

definition get_day_url :: "connector \<Rightarrow> 'a date_scheme \<Rightarrow> string \<Rightarrow> string" where
  "get_day_url c d kind = urljoin (get_month_url c d kind) (fmt_0d 2 (day d) @ ''/'')"

text \<open>
  \<^verbatim>\<open>_get_hour_url\<close> calls itself on its own arguments before it joins anything: a
  result, if there is one, is \<open>Some\<close> URL, and \<open>None\<close> is the call that does not
  return.
\<close>

partial_function (option) get_hour_url :: "connector \<Rightarrow> datetime \<Rightarrow> string \<Rightarrow> string option" where
  "get_hour_url c h kind =
     Option.bind (get_hour_url c h kind) (\<lambda>u. Some (urljoin u (fmt_0d 2 (hour h) @ ''/'')))"

text \<open>
  \<^verbatim>\<open>_probe_hour(hour, type)\<close>, level by level. Each level returns early when it is
  recorded missing, asks the server when it is not recorded existing either, and goes
  on to the next level otherwise. The result is the exception that escaped, if any.
\<close>

definition probe_day ::
  "clock \<Rightarrow> server \<Rightarrow> connector \<Rightarrow> datetime \<Rightarrow> string \<Rightarrow> error option \<times> connector" where
  "probe_day fts srv c h kind =
     (case normalize_day fts (PyDateTime h) of
        Inl e \<Rightarrow> (Some e, c)
      | Inr d \<Rightarrow>
         if (d, kind) \<in> missing_days c then (None, c)
         else if (d, kind) \<notin> existing_days c then
           (case request srv c (get_day_url c h ''snapshots'') False of
              (Inl e, c1) \<Rightarrow> (Some e, c1)
            | (Inr (status, response), c1) \<Rightarrow>
               if status = 200
               then (case add_existing_day fts c1 (PyDateTime h) kind of
                       Inl e \<Rightarrow> (Some e, c1) | Inr c2 \<Rightarrow> (None, c2))
               else (case add_missing_day fts c1 (PyDateTime h) kind of
                       Inl e \<Rightarrow> (Some e, c1) | Inr c2 \<Rightarrow> (None, c2)))
         else (None, c))"

definition probe_month ::
  "clock \<Rightarrow> server \<Rightarrow> connector \<Rightarrow> datetime \<Rightarrow> string \<Rightarrow> error option \<times> connector" where
  "probe_month fts srv c h kind =
     (case normalize_month fts (PyDateTime h) of
        Inl e \<Rightarrow> (Some e, c)
      | Inr m \<Rightarrow>
         if (m, kind) \<in> missing_months c then (None, c)
         else if (m, kind) \<notin> existing_months c then
           (case request srv c (get_month_url c h ''snapshots'') False of
              (Inl e, c1) \<Rightarrow> (Some e, c1)
            | (Inr (status, response), c1) \<Rightarrow>
               if status = 200
               then (case add_existing_month fts c1 (PyDateTime h) kind of
                       Inl e \<Rightarrow> (Some e, c1) | Inr c2 \<Rightarrow> probe_day fts srv c2 h kind)
               else (case add_missing_month fts c1 (PyDateTime h) kind of
                       Inl e \<Rightarrow> (Some e, c1) | Inr c2 \<Rightarrow> (None, c2)))
         else probe_day fts srv c h kind)"

definition probe_hour ::
  "clock \<Rightarrow> server \<Rightarrow> connector \<Rightarrow> datetime \<Rightarrow> string \<Rightarrow> error option \<times> connector" where
  "probe_hour fts srv c h kind =
     (let y = normalize_year (PyDateTime h)
      in if (y, kind) \<in> missing_years c then (None, c)
         else if (y, kind) \<notin> existing_years c then
           (case request srv c (get_year_url c (year h) ''snapshots'') False of
              (Inl e, c1) \<Rightarrow> (Some e, c1)
            | (Inr (status, response), c1) \<Rightarrow>
               if status = 200
               then probe_month fts srv (add_existing_year c1 (PyInt (year h)) kind) h kind
               else (None, add_missing_year c1 (PyInt (year h)) kind))
         else probe_month fts srv c h kind)"

text \<open>
  A generator is modelled by what its consumer sees when it runs it to the end: the
  items yielded, in order, and the exception that ended it, if one did.

  \<^verbatim>\<open>_get_directory\<close> requests the listing, gives the body to the pattern, and
  yields, for each match, the link joined to the URL of the listing and the value
  computed from the match. \<open>pattern\<close> is the scan of the compiled pattern,
  \<open>url_group\<close> the group of the link, and \<open>value_fn\<close> the value function applied as
  the code applies it (to the match and its URL, or to the text of the value group).
  The body is \<^verbatim>\<open>bytes\<close>, so the scan of a listing that was received raises
  \<open>TypeError\<close> before the first match.
\<close>

fun collect_matches ::
  "string \<Rightarrow> ('m \<Rightarrow> string) \<Rightarrow> ('m \<Rightarrow> string \<Rightarrow> error + 'v) \<Rightarrow> 'm list
    \<Rightarrow> (string \<times> 'v) list \<times> error option" where
  "collect_matches u url_group value_fn [] = ([], None)"
| "collect_matches u url_group value_fn (m # ms) =
     (let match_url = urljoin u (url_group m)
      in case value_fn m match_url of
           Inl e \<Rightarrow> ([], Some e)
         | Inr v \<Rightarrow>
            (let (ys, err) = collect_matches u url_group value_fn ms
             in ((match_url, v) # ys, err)))"

definition get_directory ::
  "server \<Rightarrow> connector \<Rightarrow> string \<Rightarrow> (string \<Rightarrow> 'm list) \<Rightarrow> ('m \<Rightarrow> string)
    \<Rightarrow> ('m \<Rightarrow> string \<Rightarrow> error + 'v) \<Rightarrow> ((string \<times> 'v) list \<times> error option) \<times> connector" where
  "get_directory srv c u pattern url_group value_fn =
     (case request srv c u True of
        (Inl e, c1) \<Rightarrow> (([], Some e), c1)
      | (Inr (status, response), c1) \<Rightarrow>
         (case py_finditer pattern response of
            Inl e \<Rightarrow> (([], Some e), c1)
          | Inr ms \<Rightarrow> (collect_matches u url_group value_fn ms, c1)))"

definition get_hours ::
  "clock \<Rightarrow> server \<Rightarrow> connector \<Rightarrow> timeval \<Rightarrow> string
    \<Rightarrow> ((string \<times> datetime) list \<times> error option) \<times> connector" where
  "get_hours fts srv c v kind =
     (case normalize_date fts v of
        Inl e \<Rightarrow> (([], Some e), c)
      | Inr d \<Rightarrow>
         (case is_day_missing fts c (PyDate d) kind of
            Inl e \<Rightarrow> (([], Some e), c)
          | Inr missing \<Rightarrow>
             if missing then (([], None), c)
             else
               (let u = urljoin (base_url c)
                          (kind @ ''/'' @ fmt_0d 4 (year d) @ ''/'' @ fmt_0d 2 (month d)
                            @ ''/'' @ fmt_0d 2 (day d) @ ''/'');
                    ((items, err), c1) =
                       get_directory srv c u finditer_year n_link
                         (\<lambda>m mu. mk_datetime (year d) (month d) (day d)
                                    (py_int (n_digits m)) 0 0 0)
                in if err = Some ConnectorException
                   then (case add_missing_day fts c1 (PyDate d) kind of
                           Inl e \<Rightarrow> ((items, Some e), c1)
                         | Inr c2 \<Rightarrow> ((items, Some ConnectorException), c2))
                   else ((items, err), c1))))"

definition get_hour :: "clock \<Rightarrow> timeval \<Rightarrow> error + datetime" where
  "get_hour fts v =
     (case normalize_time fts v False of
        Inl e \<Rightarrow> Inl e
      | Inr t \<Rightarrow> mk_datetime (year t) (month t) (day t) (hour t) 0 0 0)"

text \<open>
  A \<^verbatim>\<open>SnapshotEntry\<close>: the file name, the time and the URL (the reference back to the
  connector is left out). The value function of \<^verbatim>\<open>_get_snapshots_in_hour\<close> builds
  the time from groups 2 to 7 of the match.
\<close>

record snapshot_entry =
  file_name :: string
  time :: datetime
  url :: string

definition snapshot_value :: "snapshot_match \<Rightarrow> string \<Rightarrow> error + snapshot_entry" where
  "snapshot_value m u =
     (case mk_datetime (py_int (g_year m)) (py_int (g_month m)) (py_int (g_day m))
             (py_int (g_hour m)) (py_int (g_minute m)) (py_int (g_second m)) 0 of
        Inl e \<Rightarrow> Inl e
      | Inr t \<Rightarrow> Inr \<lparr>file_name = g_name m, time = t, url = u\<rparr>)"

definition hour_url :: "connector \<Rightarrow> datetime \<Rightarrow> string" where
  "hour_url c h =
     urljoin (base_url c)
       (''snapshots/'' @ fmt_0d 4 (year h) @ ''/'' @ fmt_0d 2 (month h) @ ''/''
         @ fmt_0d 2 (day h) @ ''/'' @ fmt_0d 2 (hour h) @ ''/'')"

definition get_snapshots_in_hour ::
  "clock \<Rightarrow> server \<Rightarrow> connector \<Rightarrow> timeval
    \<Rightarrow> (snapshot_entry list \<times> error option) \<times> connector" where
  "get_snapshots_in_hour fts srv c v =
     (case normalize_time fts v False of
        Inl e \<Rightarrow> (([], Some e), c)
      | Inr h \<Rightarrow>
         (case is_day_missing fts c (PyDateTime h) ''snapshots'' of
            Inl e \<Rightarrow> (([], Some e), c)
          | Inr missing \<Rightarrow>
             if missing then (([], None), c)
             else
               (let ((items, err), c1) =
                       get_directory srv c (hour_url c h) finditer_snapshot g_name snapshot_value
                in if err = Some ConnectorException
                   then (case probe_hour fts srv c1 h ''snapshots'' of
                           (Some e, c2) \<Rightarrow> ((map snd items, Some e), c2)
                         | (None, c2) \<Rightarrow> ((map snd items, Some ConnectorException), c2))
                   else ((map snd items, err), c1))))"

text \<open>
  \<^verbatim>\<open>_iter_hours\<close>: the hours from the hour of \<open>from_time\<close> up to the hour of
  \<open>to_time\<close>, both included. The step to the next hour can fail only after the current
  hour has been yielded.
\<close>

function hours_from :: "datetime \<Rightarrow> datetime \<Rightarrow> datetime list \<times> error option" where
  "hours_from current to_time =
     (if dt_le current to_time
      then (case add_hour current of
              Inl e \<Rightarrow> ([current], Some e)
            | Inr nxt \<Rightarrow> (let (hs, err) = hours_from nxt to_time in (current # hs, err)))
      else ([], None))"
  by pat_completeness auto
termination
proof (relation "measures [\<lambda>(t, _). nat (9999 - year t), \<lambda>(t, _). nat (12 - month t),
                           \<lambda>(t, _). nat (31 - day t), \<lambda>(t, _). nat (23 - hour t)]")
  show "wf (measures [\<lambda>(t, _). nat (9999 - year t), \<lambda>(t, _). nat (12 - month t),
                      \<lambda>(t, _). nat (31 - day t), \<lambda>(t, _). nat (23 - hour t)])"
    by simp
next
  fix current to_time :: datetime and nxt
  assume "add_hour current = Inr nxt"
  then show "((nxt, to_time), current, to_time)
       \<in> measures [\<lambda>(t, _). nat (9999 - year t), \<lambda>(t, _). nat (12 - month t),
                    \<lambda>(t, _). nat (31 - day t), \<lambda>(t, _). nat (23 - hour t)]"
    by (auto simp: add_hour_def days_in_month_def split: if_splits)
qed

declare hours_from.simps [simp del]

definition iter_hours :: "clock \<Rightarrow> timeval \<Rightarrow> timeval \<Rightarrow> datetime list \<times> error option" where
  "iter_hours fts from_time to_time =
     (case get_hour fts from_time of
        Inl e \<Rightarrow> ([], Some e)
      | Inr f \<Rightarrow>
         (case get_hour fts to_time of
            Inl e \<Rightarrow> ([], Some e)
          | Inr t \<Rightarrow> hours_from f t))"

text \<open>
  The loop of \<^verbatim>\<open>get_snapshots\<close> over the hours: a \<open>ConnectorException\<close> of an hour is
  caught and the loop goes on with the next hour; any other exception ends it.
\<close>

fun snapshots_of_hours ::
  "clock \<Rightarrow> server \<Rightarrow> connector \<Rightarrow> datetime list
    \<Rightarrow> (snapshot_entry list \<times> error option) \<times> connector" where
  "snapshots_of_hours fts srv c [] = (([], None), c)"
| "snapshots_of_hours fts srv c (h # hs) =
     (let ((es, err), c1) = get_snapshots_in_hour fts srv c (PyDateTime h)
      in if err = None \<or> err = Some ConnectorException
         then (let ((es', err'), c2) = snapshots_of_hours fts srv c1 hs
               in ((es @ es', err'), c2))
         else ((es, err), c1))"

text \<open>
  \<^verbatim>\<open>get_snapshots(from_date, to_date)\<close>; \<open>now\<close> is \<^verbatim>\<open>datetime.datetime.now()\<close> and
  \<open>to_date = None\<close> is the omitted argument.
\<close>

definition get_snapshots ::
  "clock \<Rightarrow> datetime \<Rightarrow> server \<Rightarrow> connector \<Rightarrow> timeval \<Rightarrow> timeval option
    \<Rightarrow> (snapshot_entry list \<times> error option) \<times> connector" where
  "get_snapshots fts now srv c from_date to_date =
     (let to_date1 = (case to_date of None \<Rightarrow> PyDateTime now | Some v \<Rightarrow> v)
      in case normalize_time fts from_date False of
           Inl e \<Rightarrow> (([], Some e), c)
         | Inr f \<Rightarrow>
            (case normalize_time fts to_date1 False of
               Inl e \<Rightarrow> (([], Some e), c)
             | Inr t \<Rightarrow>
                if dt_le t f then (([], Some ValueError), c)
                else
                  (let (hs, herr) = iter_hours fts (PyDateTime f) (PyDateTime t);
                       ((es, err), c1) = snapshots_of_hours fts srv c hs
                   in ((es, if err = None then herr else err), c1))))"


definition cache_le :: "connector \<Rightarrow> connector \<Rightarrow> bool" where
  "cache_le c c' =
     (missing_days c \<subseteq> missing_days c' \<and> missing_months c \<subseteq> missing_months c'
      \<and> missing_years c \<subseteq> missing_years c'
      \<and> existing_days c \<subseteq> existing_days c' \<and> existing_months c \<subseteq> existing_months c'
      \<and> existing_years c \<subseteq> existing_years c')"


section \<open>The collector\<close>

text \<open>
  \<^verbatim>\<open>bounding_range(*m)\<close> takes the least start and the greatest end of the ranges it is
  given. With no range the index \<^verbatim>\<open>z[0]\<close> fails, and with a single one \<^verbatim>\<open>min\<close> is
  called on a number.
\<close>

fun bounding_range :: "(int \<times> int) list \<Rightarrow> error + int \<times> int" where
  "bounding_range [] = Inl IndexError"
| "bounding_range [p] = Inl TypeError"
| "bounding_range (p # q # ms) =
     Inr (fold min (map fst (q # ms)) (fst p), fold max (map snd (q # ms)) (snd p))"

text \<open>
  A \<^verbatim>\<open>SnapshotCollection\<close> over a source with state \<open>'s\<close>: the covered range, and
  two logs that make its effects visible, the entries handed to the sink and the ranges
  for which \<^verbatim>\<open>source.get_snapshots\<close> was called. The source is a parameter of the
  collector, as it is of the class: \<open>get\<close> is its \<^verbatim>\<open>get_snapshots\<close>, \<open>reconnect\<close> its
  \<^verbatim>\<open>close()\<close> followed by \<^verbatim>\<open>connect()\<close>.
\<close>

record 's collection =
  source :: 's
  covered_range :: "(int \<times> int) option"
  sunk :: "snapshot_entry list"
  discoveries :: "(int \<times> int) list"

type_synonym 's discover =
  "'s \<Rightarrow> datetime \<Rightarrow> datetime \<Rightarrow> (snapshot_entry list \<times> error option) \<times> 's"

definition new_collection :: "'s \<Rightarrow> 's collection" where
  "new_collection s = \<lparr>source = s, covered_range = None, sunk = [], discoveries = []\<rparr>"

text \<open>\<^verbatim>\<open>cover(a, b)\<close> puts the request in the queue.\<close>

definition cover :: "(int \<times> int) list \<Rightarrow> int \<Rightarrow> int \<Rightarrow> (int \<times> int) list" where
  "cover queue a b = queue @ [(a, b)]"

text \<open>
  \<^verbatim>\<open>_cover(a, b)\<close>: nothing for an empty range; otherwise the snapshots of the source
  between the normalized ends, each handed to the sink if its time is in the range.
  \<open>BadStatusLine\<close> is caught and the source reconnected; any other exception escapes.
\<close>

definition cover_range ::
  "clock \<Rightarrow> 's discover \<Rightarrow> ('s \<Rightarrow> 's) \<Rightarrow> 's collection \<Rightarrow> int \<Rightarrow> int
    \<Rightarrow> error option \<times> 's collection" where
  "cover_range fts get reconnect st a b =
     (if \<not> a < b then (None, st)
      else (case normalize_time fts (PyInt a) False of
              Inl e \<Rightarrow> (Some e, st)
            | Inr ta \<Rightarrow>
               (case normalize_time fts (PyInt b) False of
                  Inl e \<Rightarrow> (Some e, st)
                | Inr tb \<Rightarrow>
                   (let ((es, err), s1) = get (source st) ta tb;
                        st1 = st\<lparr>source := s1,
                                 sunk := sunk st
                                   @ filter (\<lambda>ss. dt_less (time ss) tb \<and> dt_le ta (time ss)) es,
                                 discoveries := discoveries st @ [(a, b)]\<rparr>
                    in case err of
                         None \<Rightarrow> (None, st1)
                       | Some e \<Rightarrow>
                          if e = BadStatusLine then (None, st1\<lparr>source := reconnect s1\<rparr>)
                          else (Some e, st1)))))"

text \<open>
  One turn of the loop of \<^verbatim>\<open>async\<close> for the request it retained: the whole range the
  first time, afterwards the two parts of the bounding range outside the covered one.
  An exception that escapes ends the thread and leaves the covered range as it was.
\<close>

definition process_request ::
  "clock \<Rightarrow> 's discover \<Rightarrow> ('s \<Rightarrow> 's) \<Rightarrow> 's collection \<Rightarrow> int \<times> int
    \<Rightarrow> error option \<times> 's collection" where
  "process_request fts get reconnect st req =
     (case covered_range st of
        None \<Rightarrow>
         (case cover_range fts get reconnect st (fst req) (snd req) of
            (Some e, st1) \<Rightarrow> (Some e, st1)
          | (None, st1) \<Rightarrow> (None, st1\<lparr>covered_range := Some req\<rparr>))
      | Some cov \<Rightarrow>
         (case bounding_range [cov, req] of
            Inl e \<Rightarrow> (Some e, st)
          | Inr new_range \<Rightarrow>
             (case cover_range fts get reconnect st (fst new_range) (fst cov) of
                (Some e, st1) \<Rightarrow> (Some e, st1)
              | (None, st1) \<Rightarrow>
                 (case cover_range fts get reconnect st1 (snd cov) (snd new_range) of
                    (Some e, st2) \<Rightarrow> (Some e, st2)
                  | (None, st2) \<Rightarrow> (None, st2\<lparr>covered_range := Some new_range\<rparr>)))))"

text \<open>
  The loop wakes up with the requests that are queued and retains the last of them.
\<close>

fun async_turn ::
  "clock \<Rightarrow> 's discover \<Rightarrow> ('s \<Rightarrow> 's) \<Rightarrow> 's collection \<Rightarrow> (int \<times> int) list
    \<Rightarrow> error option \<times> 's collection" where
  "async_turn fts get reconnect st [] = (None, st)"
| "async_turn fts get reconnect st (r # rs) =
     process_request fts get reconnect st (last (r # rs))"

text \<open>
  A source that keeps, next to its own state, the list of the calls of its
  \<^verbatim>\<open>get_snapshots\<close>: each call adds its two arguments. The list is written by the
  source when it is called, not by the collector.
\<close>

definition logging :: "'s discover \<Rightarrow> ('s \<times> (datetime \<times> datetime) list) discover" where
  "logging get sl ta tb =
     (let (r, s1) = get (fst sl) ta tb in (r, (s1, snd sl @ [(ta, tb)])))"

section \<open>A fixture archive\<close>

text \<open>
  An archive at a base URL with one populated hour directory,
  \<^verbatim>\<open>snapshots/2015/01/04/03/\<close>, that lists one file; the directories above it exist
  and every other URL is answered with status 404. The clock is that of a platform whose
  local time is UTC.
\<close>

definition fixture_base :: string where
  "fixture_base = ''http://archive.test/B/''"

definition fixture_listing :: string where
  \<open>fixture_listing =
     ''<a href="20150104030000123_sta_snap.fits">20150104030000123_sta_snap.fits</a>''\<close>

definition fixture_server :: server where
  "fixture_server n u =
     (if u = ''http://archive.test/B/snapshots/2015/01/04/03/'' then (200, fixture_listing)
      else if u \<in> set [''http://archive.test/B/snapshots/2015/'',
                        ''http://archive.test/B/snapshots/2015/01/'',
                        ''http://archive.test/B/snapshots/2015/01/04/''] then (200, [])
      else (404, []))"

definition absent_server :: server where
  "absent_server n u = (404, [])"

text \<open>
  An archive in which the directories of 1970-01-01 exist and hold no hour directory.
\<close>

definition empty_day_server :: server where
  "empty_day_server n u =
     (if u \<in> set [''http://archive.test/B/snapshots/1970/'',
                   ''http://archive.test/B/snapshots/1970/01/'',
                   ''http://archive.test/B/snapshots/1970/01/01/''] then (200, [])
      else (404, []))"

definition utc_fromtimestamp :: clock where
  "utc_fromtimestamp n =
     (let days = n div 86400; secs = n mod 86400;
          z = days + 719468; era = z div 146097; doe = z mod 146097;
          yoe = (doe - doe div 1460 + doe div 36524 - doe div 146096) div 365;
          doy = doe - (365 * yoe + yoe div 4 - yoe div 100);
          mp = (5 * doy + 2) div 153;
          d = doy - (153 * mp + 2) div 5 + 1;
          m = (if mp < 10 then mp + 3 else mp - 9);
          y = yoe + era * 400 + (if m \<le> 2 then 1 else 0)
      in if 1 \<le> y \<and> y \<le> 9999
         then Inr \<lparr>year = y, month = m, day = d, hour = secs div 3600,
                   minute = secs mod 3600 div 60, second = secs mod 60, microsecond = 0\<rparr>
         else Inl ValueError)"

definition at_time :: "int \<Rightarrow> int \<Rightarrow> int \<Rightarrow> int \<Rightarrow> int \<Rightarrow> datetime" where
  "at_time y m d h mi =
     \<lparr>year = y, month = m, day = d, hour = h, minute = mi, second = 0, microsecond = 0\<rparr>"


text \<open>
  The connector as the source of a collector, on a given server, and the collector after
  its first request \<open>(a, b)\<close>, both within the first minute of 1970, on an archive that
  answers every request with 404: the only hour of the range was requested, the probe
  found the year missing, and nothing was handed to the sink.
\<close>

definition archive_source :: "server \<Rightarrow> connector discover" where
  "archive_source srv c a b =
     get_snapshots utc_fromtimestamp (at_time 2020 1 1 0 0) srv c
       (PyDateTime a) (Some (PyDateTime b))"

definition after_first_cover :: "int \<Rightarrow> int \<Rightarrow> connector collection" where
  "after_first_cover a b =
     \<lparr>source =
        \<lparr>base_url = ''http://archive.test/B/'',
         existing_days = {}, existing_months = {}, existing_years = {},
         missing_days = {}, missing_months = {}, missing_years = {(1970, ''snapshots'')},
         requests = [''http://archive.test/B/snapshots/1970/01/01/00/'',
                     ''http://archive.test/B/snapshots/1970/'']\<rparr>,
      covered_range = Some (a, b), sunk = [], discoveries = [(a, b)]\<rparr>"


lemma utc_first_minute:
  "utc_fromtimestamp 5 = Inr \<lparr>year = 1970, month = 1, day = 1,
                               hour = 0, minute = 0, second = 5, microsecond = 0\<rparr>"
  "utc_fromtimestamp 10 = Inr \<lparr>year = 1970, month = 1, day = 1,
                                hour = 0, minute = 0, second = 10, microsecond = 0\<rparr>"
  "utc_fromtimestamp 15 = Inr \<lparr>year = 1970, month = 1, day = 1,
                                hour = 0, minute = 0, second = 15, microsecond = 0\<rparr>"
  "utc_fromtimestamp 20 = Inr \<lparr>year = 1970, month = 1, day = 1,
                                hour = 0, minute = 0, second = 20, microsecond = 0\<rparr>"
  by code_simp+

section \<open>Time normalization: properties\<close>

text \<open>
  Claim C8. \<^verbatim>\<open>normalize_time\<close> with \<open>including\<close> set is meant to return the 24:00
  instant of a date. It builds a datetime with hour 24, which the constructor refuses:
  for every date the call raises \<open>ValueError\<close>.
\<close>

theorem normalize_time_including_raises:
  "normalize_time fts (PyDate d) True = Inl ValueError"
  by (simp add: mk_datetime_def valid_time_fields_def)

lemma normalize_time_midnight:
  "valid_date d \<Longrightarrow> normalize_time fts (PyDate d) False =
     Inr \<lparr>year = year d, month = month d, day = day d,
           hour = 0, minute = 0, second = 0, microsecond = 0\<rparr>"
  by (simp add: mk_datetime_def valid_time_fields_def valid_date_def)

section \<open>The existence cache: properties\<close>

text \<open>
  Claim C9. \<^verbatim>\<open>_is_hour_missing(hour, type)\<close> calls the day-missing check with the hour
  alone, so whatever the connector, the hour and the kind, it raises \<open>TypeError\<close> and
  returns no boolean.
\<close>

theorem is_hour_missing_raises:
  "is_hour_missing fts c h kind = Inl TypeError"
  by (simp add: is_hour_missing_def is_day_missing_call_def)

text \<open>
  Claim C10. \<^verbatim>\<open>_get_hour_url\<close> returns for no input: its first action is the same
  call again.
\<close>

theorem get_hour_url_never_returns:
  "get_hour_url c h kind = None"
proof (cases "get_hour_url c h kind")
  case None
  then show ?thesis .
next
  case (Some y)
  have False
  proof (rule get_hour_url.raw_induct[where P = "\<lambda>_ _ _ _. False", OF _ Some])
    fix f :: "connector \<Rightarrow> datetime \<Rightarrow> string \<Rightarrow> string option" and c h kind r
    assume ih: "\<And>c h kind y. f c h kind = Some y \<Longrightarrow> False"
      and "Option.bind (f c h kind) (\<lambda>u. Some (urljoin u (fmt_0d 2 (hour h) @ ''/''))) = Some r"
    then obtain u where "f c h kind = Some u"
      by (auto simp: Option.bind_eq_Some_conv)
    with ih show False by blast
  qed
  then show ?thesis ..
qed

section \<open>Discovery: properties\<close>

text \<open>
  Claim C6. When the normalized start is not before the normalized end,
  \<^verbatim>\<open>get_snapshots\<close> raises \<open>ValueError\<close>, yields nothing and leaves the connector as
  it was (no hour is attempted, no request is sent); and an omitted end is the current
  time.
\<close>

theorem get_snapshots_invalid_range:
  "(normalize_time fts from_date False = Inr f
      \<and> normalize_time fts (case to_date of None \<Rightarrow> PyDateTime now | Some v \<Rightarrow> v) False = Inr t
      \<and> dt_le t f
     \<longrightarrow> get_snapshots fts now srv c from_date to_date = (([], Some ValueError), c))
   \<and> get_snapshots fts now srv c from_date None
       = get_snapshots fts now srv c from_date (Some (PyDateTime now))"
  by (simp add: get_snapshots_def)

theorem get_snapshots_invalid_range_witness:
  "normalize_time utc_fromtimestamp (PyDateTime (at_time 2015 1 4 6 0)) False
     = Inr (at_time 2015 1 4 6 0)
   \<and> normalize_time utc_fromtimestamp (PyDate \<lparr>year = 2015, month = 1, day = 4\<rparr>) False
     = Inr (at_time 2015 1 4 0 0)
   \<and> dt_le (at_time 2015 1 4 0 0) (at_time 2015 1 4 6 0)
   \<and> get_snapshots utc_fromtimestamp (at_time 2020 1 1 0 0) fixture_server
        (new_connector fixture_base) (PyDateTime (at_time 2015 1 4 6 0))
        (Some (PyDate \<lparr>year = 2015, month = 1, day = 4\<rparr>))
      = (([], Some ValueError), new_connector fixture_base)"
  using get_snapshots_invalid_range
    [where fts = utc_fromtimestamp and from_date = "PyDateTime (at_time 2015 1 4 6 0)"
       and f = "at_time 2015 1 4 6 0"
       and to_date = "Some (PyDate \<lparr>year = 2015, month = 1, day = 4\<rparr>)"
       and now = "at_time 2020 1 1 0 0" and t = "at_time 2015 1 4 0 0"
       and srv = fixture_server and c = "new_connector fixture_base"]
  by (simp add: at_time_def mk_datetime_def valid_date_fields_def valid_time_fields_def
      days_in_month_def dt_le_def dt_key_def)

subsection \<open>Evaluation on concrete archives\<close>

text \<open>
  The definitions that the simplifier unfolds to run the model on a concrete archive.
\<close>

lemmas time_eval =
  mk_date_def mk_datetime_def valid_date_fields_def valid_time_fields_def days_in_month_def
  is_leap_def date_of_def dt_le_def dt_less_def dt_key_def add_hour_def at_time_def
  normalize_month_def normalize_day_def get_hour_def iter_hours_def hours_from.simps

lemmas text_eval =
  urljoin_def fmt_0d_def fmt_4d_def show_int_def show_nat.simps digit_char_def
  is_space_def is_digit_def digit_val_def py_int_def link_head_def link_end_def
  snapshot_end_def match_snapshot_def match_year_def

lemmas connector_eval =
  new_connector_def request_def is_day_missing_def
  add_missing_day_def add_missing_month_def add_missing_year_def
  add_existing_day_def add_existing_month_def add_existing_year_def
  get_year_url_def get_month_url_def get_day_url_def hour_url_def
  probe_day_def probe_month_def probe_hour_def py_finditer_def get_directory_def get_hours_def
  snapshot_value_def get_snapshots_in_hour_def get_snapshots_def Let_def

lemmas fixture_eval =
  fixture_base_def fixture_listing_def fixture_server_def absent_server_def
  empty_day_server_def

subsection \<open>What a call yields\<close>

lemma get_directory_yields_nothing:
  "fst (fst (get_directory srv c u pattern url_group value_fn)) = []"
  by (simp add: get_directory_def request_def py_finditer_def Let_def case_prod_beta)

lemma get_snapshots_in_hour_yields_nothing:
  "fst (fst (get_snapshots_in_hour fts srv c v)) = []"
  by (simp add: get_snapshots_in_hour_def get_directory_yields_nothing Let_def case_prod_beta
      split: sum.splits option.splits)

lemma snapshots_of_hours_yields_nothing:
  "fst (fst (snapshots_of_hours fts srv c hs)) = []"
  by (induction hs arbitrary: c)
    (simp_all add: get_snapshots_in_hour_yields_nothing Let_def case_prod_beta)

lemma get_snapshots_yields_nothing:
  "fst (fst (get_snapshots fts now srv c from_date to_date)) = []"
  by (simp add: get_snapshots_def snapshots_of_hours_yields_nothing Let_def case_prod_beta
      split: sum.splits)

text \<open>
  Claim C1. For a range with start before end, every entry that \<^verbatim>\<open>get_snapshots\<close>
  yields has its time in the range. The code compares no time to the range: the claim
  holds because no entry is yielded at all, the body of every listing that is received
  being \<^verbatim>\<open>bytes\<close> that the pattern refuses. The witness is the range 03:30 to 03:45 on
  the fixture archive, where the call ends with \<open>TypeError\<close> at the listing of hour 03.
\<close>

theorem get_snapshots_entries_in_range:
  "normalize_time fts from_date False = Inr f
   \<and> normalize_time fts (case to_date of None \<Rightarrow> PyDateTime now | Some v \<Rightarrow> v) False = Inr t
   \<and> dt_less f t
   \<longrightarrow> (\<forall>e \<in> set (fst (fst (get_snapshots fts now srv c from_date to_date))).
          dt_le f (time e) \<and> dt_less (time e) t)
       \<and> fst (fst (get_snapshots fts now srv c from_date to_date)) = []"
  by (simp add: get_snapshots_yields_nothing)

theorem get_snapshots_entries_in_range_witness:
  "normalize_time utc_fromtimestamp (PyDateTime (at_time 2015 1 4 3 30)) False
     = Inr (at_time 2015 1 4 3 30)
   \<and> normalize_time utc_fromtimestamp (PyDateTime (at_time 2015 1 4 3 45)) False
     = Inr (at_time 2015 1 4 3 45)
   \<and> dt_less (at_time 2015 1 4 3 30) (at_time 2015 1 4 3 45)
   \<and> get_snapshots utc_fromtimestamp (at_time 2020 1 1 0 0) fixture_server
        (new_connector fixture_base)
        (PyDateTime (at_time 2015 1 4 3 30)) (Some (PyDateTime (at_time 2015 1 4 3 45)))
     = (([], Some TypeError),
        (new_connector fixture_base)
          \<lparr>requests := [''http://archive.test/B/snapshots/2015/01/04/03/'']\<rparr>)"
  using get_snapshots_entries_in_range
    [where fts = utc_fromtimestamp and from_date = "PyDateTime (at_time 2015 1 4 3 30)"
       and f = "at_time 2015 1 4 3 30"
       and to_date = "Some (PyDateTime (at_time 2015 1 4 3 45))"
       and now = "at_time 2020 1 1 0 0" and t = "at_time 2015 1 4 3 45"
       and srv = fixture_server and c = "new_connector fixture_base"]
  by (simp add: time_eval text_eval connector_eval fixture_eval)

subsection \<open>The fixture archive\<close>

text \<open>
  The run of \<^verbatim>\<open>get_snapshots\<close> over 2015-01-04 from 00:00 to 06:00 on the fixture
  archive, with the connector it leaves behind: the hours 00 to 02 are not found (the
  first failure probes the year, the month and the day), and the listing of hour 03 is
  received and refused by the pattern, which ends the call.
\<close>

lemma fixture_run:
  "get_snapshots utc_fromtimestamp (at_time 2020 1 1 0 0) fixture_server
     (new_connector fixture_base)
     (PyDateTime (at_time 2015 1 4 0 0)) (Some (PyDateTime (at_time 2015 1 4 6 0)))
   = (([], Some TypeError),
      \<lparr>base_url = ''http://archive.test/B/'',
       existing_days = {(\<lparr>year = 2015, month = 1, day = 4\<rparr>, ''snapshots'')},
       existing_months = {(\<lparr>year = 2015, month = 1, day = 1\<rparr>, ''snapshots'')},
       existing_years = {(2015, ''snapshots'')},
       missing_days = {}, missing_months = {}, missing_years = {},
       requests = [''http://archive.test/B/snapshots/2015/01/04/00/'',
                   ''http://archive.test/B/snapshots/2015/'',
                   ''http://archive.test/B/snapshots/2015/01/'',
                   ''http://archive.test/B/snapshots/2015/01/04/'',
                   ''http://archive.test/B/snapshots/2015/01/04/01/'',
                   ''http://archive.test/B/snapshots/2015/01/04/02/'',
                   ''http://archive.test/B/snapshots/2015/01/04/03/'']\<rparr>)"
  by (simp add: time_eval text_eval connector_eval fixture_eval)

text \<open>
  What the pattern and the value function of \<^verbatim>\<open>_get_snapshots_in_hour\<close> make of the
  listing of the fixture when it is given as \<^verbatim>\<open>str\<close>.
\<close>

lemma fixture_listing_matches:
  "collect_matches ''http://archive.test/B/snapshots/2015/01/04/03/'' g_name snapshot_value
     (finditer_snapshot fixture_listing)
   = ([(''http://archive.test/B/snapshots/2015/01/04/03/20150104030000123_sta_snap.fits'',
        \<lparr>file_name = ''20150104030000123_sta_snap.fits'',
         time = \<lparr>year = 2015, month = 1, day = 4,
                  hour = 3, minute = 0, second = 0, microsecond = 0\<rparr>,
         url = ''http://archive.test/B/snapshots/2015/01/04/03/20150104030000123_sta_snap.fits''\<rparr>)],
      None)"
  by (simp add: time_eval text_eval connector_eval fixture_eval)

text \<open>
  Claim C2, as stated, fails on the fixture archive: \<^verbatim>\<open>get_snapshots\<close> over 00:00 to
  06:00 yields no entry and ends with \<open>TypeError\<close>; and the entry that the pattern and
  the value function build from the listing as text does not have the time 03:00:00.123.
\<close>

theorem fixture_timestamp_counterexample:
  "fst (get_snapshots utc_fromtimestamp (at_time 2020 1 1 0 0) fixture_server
         (new_connector fixture_base)
         (PyDateTime (at_time 2015 1 4 0 0)) (Some (PyDateTime (at_time 2015 1 4 6 0))))
     = ([], Some TypeError)
   \<and> map (\<lambda>p. time (snd p))
         (fst (collect_matches ''http://archive.test/B/snapshots/2015/01/04/03/'' g_name
                 snapshot_value (finditer_snapshot fixture_listing)))
       \<noteq> [\<lparr>year = 2015, month = 1, day = 4,
             hour = 3, minute = 0, second = 0, microsecond = 123000\<rparr>]"
  unfolding fixture_run fixture_listing_matches by simp

text \<open>
  Claim C2, amended. From the listing of the hour directory of the fixture, given as
  text, the pattern and the value function of \<^verbatim>\<open>_get_snapshots_in_hour\<close> build exactly
  one entry; its time is 2015-01-04 03:00:00 (the three digits after the seconds are
  captured by the pattern and not used), and its URL is the URL of the hour directory
  joined with the file name. Whether \<^verbatim>\<open>get_snapshots\<close> yields the entry is not part
  of the statement.
\<close>

theorem fixture_listing_entry:
  "py_finditer finditer_snapshot (PyStr fixture_listing) = Inr (finditer_snapshot fixture_listing)
   \<and> map snd (fst (collect_matches (hour_url (new_connector fixture_base) (at_time 2015 1 4 3 0))
                      g_name snapshot_value (finditer_snapshot fixture_listing)))
       = [\<lparr>file_name = ''20150104030000123_sta_snap.fits'',
            time = \<lparr>year = 2015, month = 1, day = 4,
                     hour = 3, minute = 0, second = 0, microsecond = 0\<rparr>,
            url = urljoin (hour_url (new_connector fixture_base) (at_time 2015 1 4 3 0))
                    ''20150104030000123_sta_snap.fits''\<rparr>]
   \<and> snd (collect_matches (hour_url (new_connector fixture_base) (at_time 2015 1 4 3 0))
             g_name snapshot_value (finditer_snapshot fixture_listing)) = None"
  by (simp add: time_eval text_eval connector_eval fixture_eval)

subsection \<open>Failure of an hour\<close>

lemma mk_date_first_of_month:
  "valid_datetime h \<Longrightarrow> mk_date (year h) (month h) 1 = Inr \<lparr>year = year h, month = month h, day = 1\<rparr>"
  by (auto simp: mk_date_def valid_datetime_def valid_date_fields_def days_in_month_def)

lemma probe_day_no_error: "fst (probe_day fts srv c h kind) = None"
  by (simp add: probe_day_def normalize_day_def request_def Let_def add_existing_day_def
      add_missing_day_def split: prod.splits)

lemma probe_month_no_error:
  "valid_datetime h \<Longrightarrow> fst (probe_month fts srv c h kind) = None"
  by (simp add: probe_month_def normalize_month_def mk_date_first_of_month date_of_def
      request_def Let_def add_existing_month_def add_missing_month_def probe_day_no_error
      split: prod.splits)

lemma probe_hour_no_error:
  "valid_datetime h \<Longrightarrow> fst (probe_hour fts srv c h kind) = None"
  by (simp add: probe_hour_def request_def Let_def probe_month_no_error split: prod.splits)

lemma get_snapshots_in_hour_failed:
  assumes "valid_datetime h"
    and "is_day_missing fts c (PyDateTime h) ''snapshots'' = Inr False"
    and "fst (srv (length (requests c)) (hour_url c h)) \<noteq> 200"
  shows "get_snapshots_in_hour fts srv c (PyDateTime h)
         = (([], Some ConnectorException),
            snd (probe_hour fts srv (c\<lparr>requests := requests c @ [hour_url c h]\<rparr>) h ''snapshots''))"
proof -
  have "get_directory srv c (hour_url c h) finditer_snapshot g_name snapshot_value
        = (([], Some ConnectorException), c\<lparr>requests := requests c @ [hour_url c h]\<rparr>)"
    using assms(3) by (auto simp: get_directory_def request_def Let_def split: prod.splits)
  moreover have "fst (probe_hour fts srv (c\<lparr>requests := requests c @ [hour_url c h]\<rparr>) h ''snapshots'') = None"
    using assms(1) by (rule probe_hour_no_error)
  ultimately show ?thesis
    using assms(2) by (simp add: get_snapshots_in_hour_def case_prod_beta)
qed

lemma snapshots_of_hours_error:
  "snd (fst (snapshots_of_hours fts srv c hs)) \<noteq> Some ConnectorException"
  by (induction hs arbitrary: c) (simp_all add: case_prod_beta Let_def)

lemma hours_from_error:
  "snd (hours_from a b) = None \<or> snd (hours_from a b) = Some OverflowError"
proof (induction a b rule: hours_from.induct)
  case (1 current to_time)
  show ?case
  proof (cases "dt_le current to_time")
    case False
    then show ?thesis by (simp add: hours_from.simps)
  next
    case True
    show ?thesis
    proof (cases "add_hour current")
      case (Inl e)
      then have "e = OverflowError"
        by (auto simp: add_hour_def split: if_splits)
      with True Inl show ?thesis by (simp add: hours_from.simps)
    next
      case (Inr nxt)
      with True 1 show ?thesis
        by (simp add: hours_from.simps[of current] case_prod_beta)
    qed
  qed
qed

lemma iter_hours_error:
  "snd (iter_hours fts (PyDateTime f) (PyDateTime t)) \<noteq> Some ConnectorException"
proof -
  have "snd (hours_from a b) \<noteq> Some ConnectorException" for a b
    using hours_from_error[of a b] by auto
  then show ?thesis
    by (auto simp: iter_hours_def get_hour_def mk_datetime_def split: sum.splits if_splits)
qed


text \<open>
  What holds of a failed hour in general: the exception of a failed fetch never reaches
  the caller of \<^verbatim>\<open>get_snapshots\<close>; an hour whose listing is required and whose fetch
  returns a status other than 200 ends with \<open>ConnectorException\<close> after the probe of
  the hour has run, and the loop goes on with the remaining hours from the connector
  that the probe left.
\<close>

lemma hour_failure_swallowed:
  "(normalize_time fts from_date False = Inr f
      \<and> normalize_time fts (case to_date of None \<Rightarrow> PyDateTime now | Some v \<Rightarrow> v) False = Inr t
      \<and> dt_less f t
     \<longrightarrow> snd (fst (get_snapshots fts now srv c from_date to_date)) \<noteq> Some ConnectorException
        \<and> fst (fst (get_snapshots fts now srv c from_date to_date))
            = fst (fst (snapshots_of_hours fts srv c
                          (fst (iter_hours fts (PyDateTime f) (PyDateTime t))))))
   \<and> (valid_datetime h
      \<and> is_day_missing fts c (PyDateTime h) ''snapshots'' = Inr False
      \<and> fst (srv (length (requests c)) (hour_url c h)) \<noteq> 200
     \<longrightarrow> get_snapshots_in_hour fts srv c (PyDateTime h)
          = (([], Some ConnectorException),
             snd (probe_hour fts srv (c\<lparr>requests := requests c @ [hour_url c h]\<rparr>)
                    h ''snapshots''))
        \<and> snapshots_of_hours fts srv c (h # hs)
          = snapshots_of_hours fts srv
              (snd (probe_hour fts srv (c\<lparr>requests := requests c @ [hour_url c h]\<rparr>)
                      h ''snapshots'')) hs)"
proof (intro conjI impI)
  assume a: "normalize_time fts from_date False = Inr f
      \<and> normalize_time fts (case to_date of None \<Rightarrow> PyDateTime now | Some v \<Rightarrow> v) False = Inr t
      \<and> dt_less f t"
  then have nle: "\<not> dt_le t f"
    by (auto simp: dt_le_def dt_less_def)
  from a nle show "snd (fst (get_snapshots fts now srv c from_date to_date)) \<noteq> Some ConnectorException"
    using snapshots_of_hours_error[of fts srv c "fst (iter_hours fts (PyDateTime f) (PyDateTime t))"]
      iter_hours_error[of fts f t]
    by (simp add: get_snapshots_def case_prod_beta)
  from a nle show "fst (fst (get_snapshots fts now srv c from_date to_date))
            = fst (fst (snapshots_of_hours fts srv c
                          (fst (iter_hours fts (PyDateTime f) (PyDateTime t)))))"
    by (simp add: get_snapshots_def case_prod_beta)
next
  assume b: "valid_datetime h
      \<and> is_day_missing fts c (PyDateTime h) ''snapshots'' = Inr False
      \<and> fst (srv (length (requests c)) (hour_url c h)) \<noteq> 200"
  then show in_hour: "get_snapshots_in_hour fts srv c (PyDateTime h)
          = (([], Some ConnectorException),
             snd (probe_hour fts srv (c\<lparr>requests := requests c @ [hour_url c h]\<rparr>)
                    h ''snapshots''))"
    by (simp add: get_snapshots_in_hour_failed)
  show "snapshots_of_hours fts srv c (h # hs)
          = snapshots_of_hours fts srv
              (snd (probe_hour fts srv (c\<lparr>requests := requests c @ [hour_url c h]\<rparr>)
                      h ''snapshots'')) hs"
    by (simp add: in_hour case_prod_beta)
qed

text \<open>
  Claim C4. On the fixture archive, from 02:00 to 03:30: the failure of hour 02 is
  recovered as the claim says (the probe has run and recorded the year, the month and
  the day, and the loop went on to hour 03), but the listing of hour 03 is received as
  \<^verbatim>\<open>bytes\<close>, the pattern raises \<open>TypeError\<close>, and the call ends there: the record of
  the other hour is not yielded.
\<close>

theorem failed_hour_then_listing_raises:
  "get_snapshots utc_fromtimestamp (at_time 2020 1 1 0 0) fixture_server
     (new_connector fixture_base)
     (PyDateTime (at_time 2015 1 4 2 0)) (Some (PyDateTime (at_time 2015 1 4 3 30)))
   = (([], Some TypeError),
      \<lparr>base_url = ''http://archive.test/B/'',
       existing_days = {(\<lparr>year = 2015, month = 1, day = 4\<rparr>, ''snapshots'')},
       existing_months = {(\<lparr>year = 2015, month = 1, day = 1\<rparr>, ''snapshots'')},
       existing_years = {(2015, ''snapshots'')},
       missing_days = {}, missing_months = {}, missing_years = {},
       requests = [''http://archive.test/B/snapshots/2015/01/04/02/'',
                   ''http://archive.test/B/snapshots/2015/'',
                   ''http://archive.test/B/snapshots/2015/01/'',
                   ''http://archive.test/B/snapshots/2015/01/04/'',
                   ''http://archive.test/B/snapshots/2015/01/04/03/'']\<rparr>)"
  by (simp add: time_eval text_eval connector_eval fixture_eval)

section \<open>The existence cache: records are kept and short-circuit\<close>



lemma request_cache: "cache_le c (snd (request srv c u throw))"
  by (simp add: request_def cache_le_def case_prod_beta Let_def)








































section \<open>The collector: properties\<close>

lemmas collection_eval =
  new_collection_def cover_range_def process_request_def archive_source_def logging_def


lemma async_turn_retains_last:
  "reqs \<noteq> [] \<Longrightarrow>
   async_turn fts get rc st reqs = process_request fts get rc st (last reqs)"
  by (cases reqs) simp_all

lemma cover_range_empty: "\<not> a < b \<Longrightarrow> cover_range fts get rc st a b = (None, st)"
  by (simp add: cover_range_def)

text \<open>
  Claim C7. A request equal to the covered range changes nothing: the covered range
  stays, no exception escapes, and \<^verbatim>\<open>get_snapshots\<close> is not called (the two parts
  outside the covered range are empty). The witness is the request (10, 20) processed
  twice.
\<close>

theorem cover_same_range_is_noop:
  "covered_range st = Some (a, b) \<longrightarrow> process_request fts get rc st (a, b) = (None, st)"
  by (simp add: process_request_def cover_range_empty)


theorem cover_same_range_is_noop_witness:
  "process_request utc_fromtimestamp (archive_source absent_server) (\<lambda>c. c)
     (new_collection (new_connector fixture_base)) (10, 20)
     = (None, after_first_cover 10 20)
   \<and> covered_range (after_first_cover 10 20) = Some (10, 20)
   \<and> process_request utc_fromtimestamp (archive_source absent_server) (\<lambda>c. c)
       (after_first_cover 10 20) (10, 20)
     = (None, after_first_cover 10 20)
   \<and> discoveries (after_first_cover 10 20) = [(10, 20)]"
  using cover_same_range_is_noop
    [where st = "after_first_cover 10 20" and a = 10 and b = 20
       and fts = utc_fromtimestamp and get = "archive_source absent_server"
       and rc = "\<lambda>c. c"]
  by (simp add: time_eval text_eval connector_eval fixture_eval collection_eval
      utc_first_minute after_first_cover_def)




end
